theory Spec2Isabelle
  imports Main "HOL-Library.AList"
begin

section \<open>Strings\<close>

text \<open>
  Python strings are modelled as \<^typ>\<open>string\<close> restricted to ASCII: the characters
  that \<open>str.strip\<close>, \<open>str.isalpha\<close>, \<open>str.lower\<close> and \<open>str.upper\<close> treat specially are the
  ASCII ones; every other character is an opaque non-blank, non-letter symbol.
\<close>

definition is_space :: "char \<Rightarrow> bool" where
  "is_space c = (let n = (of_char c :: nat) in (9 \<le> n \<and> n \<le> 13) \<or> (28 \<le> n \<and> n \<le> 32))"

definition strip :: "string \<Rightarrow> string" where
  "strip t = rev (dropWhile is_space (rev (dropWhile is_space t)))"

definition is_upper :: "char \<Rightarrow> bool" where
  "is_upper c = (let n = (of_char c :: nat) in 65 \<le> n \<and> n \<le> 90)"

definition is_lower :: "char \<Rightarrow> bool" where
  "is_lower c = (let n = (of_char c :: nat) in 97 \<le> n \<and> n \<le> 122)"

definition lower :: "string \<Rightarrow> string" where
  "lower t = map (\<lambda>c. if is_upper c then char_of (of_char c + (32 :: nat)) else c) t"

definition upper :: "string \<Rightarrow> string" where
  "upper t = map (\<lambda>c. if is_lower c then char_of (of_char c - (32 :: nat)) else c) t"

definition isalpha :: "string \<Rightarrow> bool" where
  "isalpha t = (t \<noteq> [] \<and> list_all (\<lambda>c. is_upper c \<or> is_lower c) t)"

text \<open>\<open>t.endswith(suffix)\<close>.\<close>

definition endswith :: "string \<Rightarrow> string \<Rightarrow> bool" where
  "endswith t suffix = (length suffix \<le> length t \<and> drop (length t - length suffix) t = suffix)"

text \<open>\<open>t.split(sep)\<close> for a one-character separator: never returns the empty list.\<close>

fun split_on :: "char \<Rightarrow> string \<Rightarrow> string list" where
  "split_on sep [] = [[]]"
| "split_on sep (c # cs) =
     (if c = sep then [] # split_on sep cs
      else (case split_on sep cs of [] \<Rightarrow> [[c]] | w # ws \<Rightarrow> (c # w) # ws))"

text \<open>\<open>sep.join(parts)\<close>.\<close>

fun join :: "string \<Rightarrow> string list \<Rightarrow> string" where
  "join sep [] = []"
| "join sep [p] = p"
| "join sep (p # q # ps) = p @ sep @ join sep (q # ps)"

text \<open>The slice \<open>t[i:j]\<close> for non-negative bounds.\<close>

definition slice :: "string \<Rightarrow> nat \<Rightarrow> nat \<Rightarrow> string" where
  "slice t i j = take (j - i) (drop i t)"

section \<open>Data model\<close>

datatype error = IndexError | KeyError | TypeError | AttributeError | InterruptedError | IOError | ValueError

text \<open>A pysrt item: index, start and end time (milliseconds) and text.\<close>

record sub =
  sub_index :: int
  sub_start :: nat
  sub_end :: nat
  sub_text :: string

text \<open>The value stored in \<open>untranslated_line_details\<close> under the key \<open>(output_path, index)\<close>.\<close>

record details =
  original_text :: string
  failure_count :: nat

text \<open>A decoded JSON document, as \<open>response.json()\<close> returns it.\<close>

datatype json =
    JNull
  | JBool bool
  | JNum int
  | JStr string
  | JList "json list"
  | JDict "(string \<times> json) list"

text \<open>
  What one \<open>requests.get\<close> does: it raises \<open>requests.exceptions.Timeout\<close>, it raises another
  exception, or it returns a response with a status code and a body; the body is \<open>None\<close>
  when it is not valid JSON (then \<open>response.json()\<close> raises).
\<close>

datatype response = Timeout | Failure | Http nat "json option"

text \<open>
  The fields of \<open>CombinedSubtitleProcessorGUI\<close> that the translation engine reads and
  writes, together with the two external collaborators it talks to: the file system
  (\<open>disk\<close>: the parsed contents of every subtitle file that exists; \<open>unwritable\<close>: the paths
  at which saving raises) and the translation service (\<open>service n endpoint sl tl q\<close> is the
  outcome of the request that makes \<open>request_count\<close> equal to \<open>n\<close>).
  \<open>attempt_log\<close> is a history variable, not a field of the program: every call of
  \<open>translate_text_direct\<close> made for a subtitle line appends the line's key and whether the
  caller took the result for a translation.
\<close>

record app =
  languages :: "string \<rightharpoonup> string"
  naming_var :: string
  format_var :: string
  subtitle_color :: string
  source_lang :: string
  target_lang :: string
  translation_cache :: "string \<rightharpoonup> string"
  cache_hits :: nat
  request_count :: nat
  error_count :: nat
  untranslated_line_details :: "((string \<times> int) \<times> details) list"
  api_endpoints :: "string list"
  current_endpoint_index :: nat
  translation_in_progress :: bool
  disk :: "string \<rightharpoonup> sub list"
  unwritable :: "string \<Rightarrow> bool"
  service :: "nat \<Rightarrow> string \<Rightarrow> string \<Rightarrow> string \<Rightarrow> string \<Rightarrow> response"
  attempt_log :: "((string \<times> int) \<times> bool) list"

definition MAX_FAILURES_PER_LINE :: nat where
  "MAX_FAILURES_PER_LINE = 3"

section \<open>Endpoint rotation\<close>

text \<open>
  \<open>get_next_endpoint\<close> runs under \<open>endpoint_lock\<close>, so each call is one atomic step on the
  shared index. Indexing an empty endpoint list raises.
\<close>

definition get_next_endpoint :: "app \<Rightarrow> error + (string \<times> app)" where
  "get_next_endpoint s =
     (if current_endpoint_index s < length (api_endpoints s)
      then Inr (api_endpoints s ! current_endpoint_index s,
                s\<lparr>current_endpoint_index :=
                    (current_endpoint_index s + 1) mod length (api_endpoints s)\<rparr>)
      else Inl IndexError)"

text \<open>\<open>n\<close> successive calls, in the order in which they take the lock.\<close>

fun get_next_endpoint_calls :: "nat \<Rightarrow> app \<Rightarrow> error + (string list \<times> app)" where
  "get_next_endpoint_calls 0 s = Inr ([], s)"
| "get_next_endpoint_calls (Suc n) s =
     (case get_next_endpoint s of
        Inl e \<Rightarrow> Inl e
      | Inr (e, s') \<Rightarrow>
          (case get_next_endpoint_calls n s' of
             Inl err \<Rightarrow> Inl err
           | Inr (es, s'') \<Rightarrow> Inr (e # es, s'')))"

section \<open>Translating one text\<close>

text \<open>The text that the body of an HTTP 200 response carries; malformed shapes raise.\<close>

fun segment_text :: "json \<Rightarrow> string" where
  "segment_text (JList (JStr t # rest)) = t"
| "segment_text other = []"

fun sentence_trans :: "json \<Rightarrow> error + string" where
  "sentence_trans (JDict kv) =
     (case map_of kv ''trans'' of
        None \<Rightarrow> Inr []
      | Some (JStr t) \<Rightarrow> Inr t
      | Some other \<Rightarrow> Inl TypeError)"
| "sentence_trans other = Inl AttributeError"

fun join_sentences :: "json list \<Rightarrow> error + string" where
  "join_sentences [] = Inr []"
| "join_sentences (seg # segs) =
     (case sentence_trans seg of
        Inl e \<Rightarrow> Inl e
      | Inr t \<Rightarrow> (case join_sentences segs of Inl e \<Rightarrow> Inl e | Inr u \<Rightarrow> Inr (t @ u)))"

fun extract_translated :: "json \<Rightarrow> error + string" where
  "extract_translated (JList (JList segs # rest)) = Inr (concat (map segment_text segs))"
| "extract_translated (JList (JStr t # rest)) = Inr t"
| "extract_translated (JList other) = Inr []"
| "extract_translated (JDict kv) =
     (case map_of kv ''sentences'' of
        None \<Rightarrow> Inr []
      | Some (JList segs) \<Rightarrow> join_sentences segs
      | Some (JStr t) \<Rightarrow> (if t = [] then Inr [] else Inl AttributeError)
      | Some (JDict items) \<Rightarrow> (if items = [] then Inr [] else Inl AttributeError)
      | Some other \<Rightarrow> Inl TypeError)"
| "extract_translated other = Inr []"

definition cache_key :: "string \<Rightarrow> string \<Rightarrow> string \<Rightarrow> string" where
  "cache_key source_code target_code stripped = source_code @ ''|'' @ target_code @ ''|'' @ stripped"

definition retryable_status :: "nat \<Rightarrow> bool" where
  "retryable_status code = (code = 429 \<or> code = 500 \<or> code = 502 \<or> code = 503 \<or> code = 504)"

text \<open>
  The \<open>while attempt <= max_retries\<close> loop of \<open>translate_text_direct\<close>. It returns the
  translated text when an attempt succeeded (\<open>success\<close>), and \<open>None\<close> otherwise. The throttle
  delay and the back-off only sleep; they leave no trace in the state.
\<close>

function attempt_loop ::
  "app \<Rightarrow> string \<Rightarrow> string \<Rightarrow> string \<Rightarrow> nat \<Rightarrow> nat \<Rightarrow> string option \<times> app" where
  "attempt_loop s source_code target_code stripped max_retries attempt =
     (if attempt \<le> max_retries then
        if \<not> translation_in_progress s then (None, s)
        else
          let s1 = s\<lparr>request_count := request_count s + 1\<rparr> in
          (case get_next_endpoint s1 of
             Inl e \<Rightarrow> (None, s1\<lparr>error_count := error_count s1 + 1\<rparr>)
           | Inr (endpoint, s2) \<Rightarrow>
               (case service s2 (request_count s2) endpoint source_code target_code stripped of
                  Timeout \<Rightarrow> attempt_loop s2 source_code target_code stripped max_retries (attempt + 1)
                | Failure \<Rightarrow> (None, s2\<lparr>error_count := error_count s2 + 1\<rparr>)
                | Http code body \<Rightarrow>
                    if code = 200 then
                      (case body of
                         None \<Rightarrow> (None, s2\<lparr>error_count := error_count s2 + 1\<rparr>)
                       | Some data \<Rightarrow>
                           (case extract_translated data of
                              Inl e \<Rightarrow> (None, s2\<lparr>error_count := error_count s2 + 1\<rparr>)
                            | Inr translated \<Rightarrow>
                                if translated \<noteq> [] \<and> strip translated \<noteq> []
                                   \<and> strip translated \<noteq> stripped
                                then (Some translated, s2)
                                else attempt_loop s2 source_code target_code stripped
                                       max_retries (attempt + 1)))
                    else if retryable_status code
                    then attempt_loop s2 source_code target_code stripped max_retries (attempt + 1)
                    else (None, s2\<lparr>error_count := error_count s2 + 1\<rparr>)))
      else (None, s))"
  by pat_completeness auto
termination
  by (relation "measure (\<lambda>(s, sc, tc, stripped, max_retries, attempt). max_retries + 1 - attempt)") auto

declare attempt_loop.simps [simp del]

text \<open>The source and target codes; a missing language name raises \<open>KeyError\<close>.\<close>

definition language_codes :: "app \<Rightarrow> string \<Rightarrow> string \<Rightarrow> error + (string \<times> string)" where
  "language_codes s target source =
     (case languages s target of
        None \<Rightarrow> Inl KeyError
      | Some target_code \<Rightarrow>
          if source = ''Auto'' then Inr (target_code, ''auto'')
          else (case languages s source of
                  None \<Rightarrow> Inl KeyError
                | Some source_code \<Rightarrow> Inr (target_code, source_code)))"

definition translate_text_direct :: "app \<Rightarrow> string \<Rightarrow> string \<Rightarrow> string \<Rightarrow> nat \<Rightarrow> string \<times> app" where
  "translate_text_direct s text target source max_retries =
     (let stripped = strip text in
      if stripped = [] then (text, s)
      else
        (case language_codes s target source of
           Inl e \<Rightarrow> (text, s)
         | Inr (target_code, source_code) \<Rightarrow>
             let key = cache_key source_code target_code stripped in
             (case translation_cache s key of
                Some cached \<Rightarrow> (cached, s\<lparr>cache_hits := cache_hits s + 1\<rparr>)
              | None \<Rightarrow>
                  (case attempt_loop s source_code target_code stripped max_retries 0 of
                     (None, s1) \<Rightarrow> (text, s1\<lparr>error_count := error_count s1 + 1\<rparr>)
                   | (Some result, s1) \<Rightarrow>
                       (result, s1\<lparr>translation_cache := (translation_cache s1)(key \<mapsto> result)\<rparr>)))))"

text \<open>The colour envelope that both \<open>translate_subtitle\<close> and the retry pass put around a translation.\<close>

definition apply_color :: "app \<Rightarrow> string \<Rightarrow> string" where
  "apply_color s translated =
     (if subtitle_color s \<noteq> [] \<and> upper (subtitle_color s) \<noteq> ''#FFFFFF'' then
        if format_var s = ''ASS/SSA Compatible'' then
          (let color = subtitle_color s;
               ass_color = ''&H'' @ slice color 5 7 @ slice color 3 5 @ slice color 1 3 @ ''&''
           in ''{'' @ [CHR 0x5C] @ ''c'' @ ass_color @ ''}'' @ translated
              @ ''{'' @ [CHR 0x5C] @ ''c&HFFFFFF&}'')
        else ''<font color='' @ [CHR 0x22] @ subtitle_color s @ [CHR 0x22] @ ''>''
             @ translated @ ''</font>''
      else translated)"

text \<open>
  \<open>translate_subtitle\<close> returns \<open>(index, text, success, original_text)\<close>. A task carries the
  item and the two language names.
\<close>

definition translate_subtitle ::
  "app \<Rightarrow> sub \<Rightarrow> string \<Rightarrow> string \<Rightarrow> (int \<times> string \<times> bool \<times> string) \<times> app" where
  "translate_subtitle s sb source target =
     (let original = sub_text sb in
      if \<not> translation_in_progress s then ((sub_index sb, original, False, original), s)
      else
        (case translate_text_direct s original target source 3 of
           (translated, s') \<Rightarrow>
             if translated \<noteq> [] \<and> strip translated \<noteq> strip original
             then ((sub_index sb, apply_color s' translated, True, original), s')
             else ((sub_index sb, original, False, original), s')))"

section \<open>Translating one file in parallel\<close>

text \<open>\<open>save_subtitles\<close> swallows the exception of a failed save and returns \<open>False\<close>.\<close>

definition save_subtitles :: "app \<Rightarrow> sub list \<Rightarrow> string \<Rightarrow> bool \<times> app" where
  "save_subtitles s subs output_path =
     (if unwritable s output_path then (False, s)
      else (True, s\<lparr>disk := (disk s)(output_path \<mapsto> subs)\<rparr>))"

text \<open>
  The worker pool is linearised: the futures complete one at a time, and a schedule lists
  what happens in which order. \<open>Complete i\<close>: the future of task number \<open>i\<close> (counting the
  items of the file from 0) runs \<open>translate_subtitle\<close> and is handed to the
  \<open>as_completed\<close> loop; \<open>Cancel\<close>: the user interface clears \<open>translation_in_progress\<close>.
  A position that names no task stands for no future.
\<close>

datatype event = Complete nat | Cancel

definition record_failure :: "app \<Rightarrow> string \<times> int \<Rightarrow> string \<Rightarrow> app" where
  "record_failure s key original =
     (let count = (case map_of (untranslated_line_details s) key of
                     None \<Rightarrow> 0
                   | Some info \<Rightarrow> failure_count info)
      in s\<lparr>untranslated_line_details :=
             AList.update key \<lparr>original_text = original, failure_count = count + 1\<rparr>
               (untranslated_line_details s)\<rparr>)"

definition clear_failure :: "app \<Rightarrow> string \<times> int \<Rightarrow> app" where
  "clear_failure s key =
     s\<lparr>untranslated_line_details := AList.delete key (untranslated_line_details s)\<rparr>"

text \<open>
  The \<open>as_completed\<close> loop. \<open>translate_subtitle\<close> catches what it can raise, so the
  handler for a failed future is never entered. The progress display is left out.
\<close>

fun collect_results ::
  "app \<Rightarrow> string \<Rightarrow> string \<Rightarrow> string \<Rightarrow> sub list \<Rightarrow> event list \<Rightarrow> (int \<times> string) list \<Rightarrow> nat \<Rightarrow> nat
   \<Rightarrow> (error + ((int \<times> string) list \<times> nat \<times> nat)) \<times> app" where
  "collect_results s output_path source target tasks [] results processed untranslated =
     (Inr (results, processed, untranslated), s)"
| "collect_results s output_path source target tasks (Cancel # evs) results processed untranslated =
     collect_results (s\<lparr>translation_in_progress := False\<rparr>) output_path source target tasks evs
       results processed untranslated"
| "collect_results s output_path source target tasks (Complete i # evs) results processed untranslated =
     (if length tasks \<le> i
      then collect_results s output_path source target tasks evs results processed untranslated
      else
        (case translate_subtitle s (tasks ! i) source target of
           ((idx, text, success, original), s1) \<Rightarrow>
             if \<not> translation_in_progress s1 then (Inl InterruptedError, s1)
             else
               let key = (output_path, idx);
                   s2 = s1\<lparr>attempt_log := attempt_log s1 @ [(key, success)]\<rparr>
               in if \<not> success
                  then collect_results (record_failure s2 key original) output_path source target
                         tasks evs (AList.update idx text results) (processed + 1) (untranslated + 1)
                  else collect_results (clear_failure s2 key) output_path source target
                         tasks evs (AList.update idx text results) (processed + 1) untranslated))"

text \<open>\<open>for sub in subs: if sub.index in results: sub.text = results[sub.index]\<close>.\<close>

definition reassemble :: "(int \<times> string) list \<Rightarrow> sub list \<Rightarrow> sub list" where
  "reassemble results subs =
     map (\<lambda>sb. case map_of results (sub_index sb) of
                 None \<Rightarrow> sb
               | Some text \<Rightarrow> sb\<lparr>sub_text := text\<rparr>) subs"

text \<open>
  \<open>process_file_parallel\<close> returns \<open>(characters, processed, untranslated)\<close>. Opening a
  file that does not exist raises.
\<close>

definition process_file_parallel ::
  "app \<Rightarrow> string \<Rightarrow> string \<Rightarrow> string \<Rightarrow> string \<Rightarrow> event list \<Rightarrow> (error + (nat \<times> nat \<times> nat)) \<times> app" where
  "process_file_parallel s file_path output_path source target schedule =
     (case disk s file_path of
        None \<Rightarrow> (Inl IOError, s)
      | Some subs \<Rightarrow>
          if subs = [] then (Inr (0, 0, 0), snd (save_subtitles s [] output_path))
          else
            (case collect_results s output_path source target subs schedule [] 0 0 of
               (Inl e, s1) \<Rightarrow> (Inl e, s1)
             | (Inr (results, processed, untranslated), s1) \<Rightarrow>
                 let subs' = reassemble results subs
                 in (Inr (sum_list (map (\<lambda>sb. length (sub_text sb)) subs'), processed, untranslated),
                     snd (save_subtitles s1 subs' output_path))))"

section \<open>Sequential retry passes\<close>

text \<open>
  \<open>grouped\<close>: the failure records by output path, the paths in the order of their first
  record and the records of a path in dictionary order.
\<close>

definition group_by_path ::
  "((string \<times> int) \<times> details) list \<Rightarrow> (string \<times> ((string \<times> int) \<times> details) list) list" where
  "group_by_path items =
     foldl (\<lambda>grouped (key, info).
              AList.update (fst key)
                ((case map_of grouped (fst key) of None \<Rightarrow> [] | Some l \<Rightarrow> l) @ [(key, info)])
                grouped)
       [] items"

text \<open>
  A record is a dictionary object shared between \<open>untranslated_line_details\<close> and
  \<open>next_untranslated\<close>: writing its \<open>failure_count\<close> changes it in both.
\<close>

definition set_failure_count :: "app \<Rightarrow> string \<times> int \<Rightarrow> details \<Rightarrow> nat \<Rightarrow> app" where
  "set_failure_count s key info n =
     s\<lparr>untranslated_line_details :=
         AList.update key (info\<lparr>failure_count := n\<rparr>) (untranslated_line_details s)\<rparr>"

text \<open>\<open>sub.text = formatted\<close> on the first item that has the index.\<close>

fun set_text :: "int \<Rightarrow> string \<Rightarrow> sub list \<Rightarrow> sub list" where
  "set_text index text [] = []"
| "set_text index text (sb # subs) =
     (if sub_index sb = index then sb\<lparr>sub_text := text\<rparr> # subs
      else sb # set_text index text subs)"

text \<open>The branch for an output file that no longer exists.\<close>

fun mark_missing ::
  "app \<Rightarrow> ((string \<times> int) \<times> details) list \<Rightarrow> ((string \<times> int) \<times> details) list
   \<Rightarrow> ((string \<times> int) \<times> details) list \<times> app" where
  "mark_missing s [] next_untranslated = (next_untranslated, s)"
| "mark_missing s ((key, info) # items) next_untranslated =
     mark_missing (set_failure_count s key info MAX_FAILURES_PER_LINE) items
       (AList.update key (info\<lparr>failure_count := MAX_FAILURES_PER_LINE\<rparr>) next_untranslated)"

text \<open>The loop over the records of one output file.\<close>

fun retry_items ::
  "app \<Rightarrow> sub list \<Rightarrow> bool \<Rightarrow> ((string \<times> int) \<times> details) list
   \<Rightarrow> ((string \<times> int) \<times> details) list \<Rightarrow> nat
   \<Rightarrow> (error + (sub list \<times> bool \<times> ((string \<times> int) \<times> details) list \<times> nat)) \<times> app" where
  "retry_items s subs modified [] next_untranslated successes =
     (Inr (subs, modified, next_untranslated, successes), s)"
| "retry_items s subs modified ((key, info) # items) next_untranslated successes =
     (if \<not> translation_in_progress s then (Inl InterruptedError, s)
      else if MAX_FAILURES_PER_LINE \<le> failure_count info
      then retry_items s subs modified items (AList.update key info next_untranslated) successes
      else
        (case find (\<lambda>sb. sub_index sb = snd key) subs of
           None \<Rightarrow>
             retry_items (set_failure_count s key info MAX_FAILURES_PER_LINE) subs modified items
               (AList.update key (info\<lparr>failure_count := MAX_FAILURES_PER_LINE\<rparr>) next_untranslated)
               successes
         | Some sb \<Rightarrow>
             if strip (sub_text sb) \<noteq> strip (original_text info)
             then retry_items s subs modified items next_untranslated successes
             else
               (case translate_text_direct s (original_text info) (target_lang s) (source_lang s) 3 of
                  (translated, s1) \<Rightarrow>
                    if strip translated \<noteq> [] \<and> strip translated \<noteq> strip (original_text info)
                    then retry_items (s1\<lparr>attempt_log := attempt_log s1 @ [(key, True)]\<rparr>)
                           (set_text (snd key) (apply_color s1 translated) subs) True items
                           next_untranslated (successes + 1)
                    else retry_items
                           (set_failure_count (s1\<lparr>attempt_log := attempt_log s1 @ [(key, False)]\<rparr>)
                              key info (failure_count info + 1))
                           subs modified items
                           (AList.update key (info\<lparr>failure_count := failure_count info + 1\<rparr>)
                              next_untranslated)
                           successes)))"

text \<open>The loop over the output files.\<close>

fun retry_groups ::
  "app \<Rightarrow> (string \<times> ((string \<times> int) \<times> details) list) list
   \<Rightarrow> ((string \<times> int) \<times> details) list \<Rightarrow> nat
   \<Rightarrow> (error + (((string \<times> int) \<times> details) list \<times> nat)) \<times> app" where
  "retry_groups s [] next_untranslated successes = (Inr (next_untranslated, successes), s)"
| "retry_groups s ((output_path, items) # groups) next_untranslated successes =
     (case disk s output_path of
        None \<Rightarrow>
          (case mark_missing s items next_untranslated of
             (next', s1) \<Rightarrow> retry_groups s1 groups next' successes)
      | Some subs \<Rightarrow>
          (case retry_items s subs False items next_untranslated successes of
             (Inl e, s1) \<Rightarrow> (Inl e, s1)
           | (Inr (subs', modified, next', successes'), s1) \<Rightarrow>
               retry_groups (if modified then snd (save_subtitles s1 subs' output_path) else s1)
                 groups next' successes'))"

text \<open>\<open>retry_untranslated_lines_sequential\<close> returns \<open>(successes, remaining)\<close>.\<close>

definition retry_untranslated_lines_sequential ::
  "app \<Rightarrow> nat \<Rightarrow> (error + (nat \<times> nat)) \<times> app" where
  "retry_untranslated_lines_sequential s pass_number =
     (if untranslated_line_details s = [] then (Inr (0, 0), s)
      else
        (case retry_groups s (group_by_path (untranslated_line_details s)) [] 0 of
           (Inl e, s1) \<Rightarrow> (Inl e, s1)
         | (Inr (next_untranslated, successes), s1) \<Rightarrow>
             (Inr (successes, length next_untranslated),
              s1\<lparr>untranslated_line_details := next_untranslated\<rparr>)))"

text \<open>The retry loop of \<open>translate_files_thread\<close>.\<close>

function retry_loop :: "app \<Rightarrow> nat \<Rightarrow> nat \<Rightarrow> (error + unit) \<times> app" where
  "retry_loop s max_retries current_pass =
     (if untranslated_line_details s \<noteq> [] \<and> current_pass < max_retries then
        if \<not> translation_in_progress s then (Inl InterruptedError, s)
        else
          (case retry_untranslated_lines_sequential s (current_pass + 1) of
             (Inl e, s1) \<Rightarrow> (Inl e, s1)
           | (Inr (retry_success, remaining), s1) \<Rightarrow>
               if remaining = 0 then (Inr (), s1)
               else retry_loop s1 max_retries (current_pass + 1))
      else (Inr (), s))"
  by pat_completeness auto
termination
  by (relation "measure (\<lambda>(s, max_retries, current_pass). max_retries - current_pass)") auto

declare retry_loop.simps [simp del]

section \<open>Output names\<close>

text \<open>
  \<open>os.path\<close> on the platform the program is configured for (POSIX paths): \<open>dirname\<close>,
  \<open>basename\<close>, \<open>splitext\<close> and \<open>join\<close> of two components.
\<close>

definition basename :: "string \<Rightarrow> string" where
  "basename p = rev (takeWhile (\<lambda>c. c \<noteq> CHR ''/'') (rev p))"

definition dirname :: "string \<Rightarrow> string" where
  "dirname p =
     (let head = rev (dropWhile (\<lambda>c. c \<noteq> CHR ''/'') (rev p))
      in if head \<noteq> [] \<and> \<not> list_all (\<lambda>c. c = CHR ''/'') head
         then rev (dropWhile (\<lambda>c. c = CHR ''/'') (rev head))
         else head)"

definition splitext :: "string \<Rightarrow> string \<times> string" where
  "splitext p =
     (let rext = takeWhile (\<lambda>c. c \<noteq> CHR ''.'') (rev p)
      in case dropWhile (\<lambda>c. c \<noteq> CHR ''.'') (rev p) of
           [] \<Rightarrow> (p, [])
         | dot # rroot \<Rightarrow>
             if CHR ''/'' \<in> set rext then (p, [])
             else if list_ex (\<lambda>c. c \<noteq> CHR ''.'') (takeWhile (\<lambda>c. c \<noteq> CHR ''/'') rroot)
             then (rev rroot, dot # rev rext)
             else (p, []))"

definition path_join :: "string \<Rightarrow> string \<Rightarrow> string" where
  "path_join a b =
     (if b \<noteq> [] \<and> hd b = CHR ''/'' then b
      else if a = [] \<or> last a = CHR ''/'' then a @ b
      else a @ ''/'' @ b)"

text \<open>
  \<open>get_output_path\<close>. Its operations raise on no string, so the fallback of its
  exception handler is never taken.
\<close>

definition get_output_path :: "app \<Rightarrow> string \<Rightarrow> string \<Rightarrow> string" where
  "get_output_path s input_path target =
     (let directory = dirname input_path;
          (base0, ext) = splitext (basename input_path);
          base = (if endswith (lower base0) ''_cleaned'' then take (length base0 - 8) base0 else base0);
          parts = split_on (CHR ''.'') base;
          core = (if 1 < length parts \<and> isalpha (last parts)
                     \<and> (length (last parts) = 2 \<or> length (last parts) = 3)
                  then join ''.'' (butlast parts) else base);
          code = (case languages s target of Some c \<Rightarrow> c | None \<Rightarrow> lower (take 2 target));
          naming = naming_var s;
          output_name =
            (if naming = ''Original_language'' then core @ ''_'' @ code @ ext
             else if naming = ''language.Original'' then code @ ''.'' @ core @ ext
             else core @ ''.'' @ code @ ext)
      in path_join directory output_name)"

section \<open>The translation run\<close>

text \<open>The loop of \<open>translate_files_thread\<close> over the files that passed the analysis.\<close>

fun translate_valid_files ::
  "app \<Rightarrow> string list \<Rightarrow> string \<Rightarrow> string \<Rightarrow> (string \<Rightarrow> event list) \<Rightarrow> (error + unit) \<times> app" where
  "translate_valid_files s [] source target schedule = (Inr (), s)"
| "translate_valid_files s (fp # fps) source target schedule =
     (if \<not> translation_in_progress s then (Inr (), s)
      else
        (case process_file_parallel s fp (get_output_path s fp target) source target (schedule fp) of
           (Inl e, s1) \<Rightarrow>
             if e = InterruptedError then (Inl InterruptedError, s1)
             else translate_valid_files s1 fps source target schedule
         | (Inr counts, s1) \<Rightarrow> translate_valid_files s1 fps source target schedule))"

text \<open>
  \<open>translate_files_thread\<close>, from the analysis of the files to
  \<open>final_untranslated_count\<close>; \<open>schedule fp\<close> is the schedule of the worker pool for the
  file \<open>fp\<close> and \<open>max_retries\<close> the configured number of retry passes.
\<close>

definition translate_files_thread ::
  "app \<Rightarrow> string list \<Rightarrow> (string \<Rightarrow> event list) \<Rightarrow> nat \<Rightarrow> (error + nat) \<times> app" where
  "translate_files_thread s files schedule max_retries =
     (if files = [] then (Inl ValueError, s)
      else
        let s0 = s\<lparr>untranslated_line_details := []\<rparr>;
            valid_files = filter (\<lambda>fp. case disk s0 fp of None \<Rightarrow> False | Some subs \<Rightarrow> subs \<noteq> []) files
        in if \<not> translation_in_progress s0 then (Inl InterruptedError, s0)
           else if valid_files = [] then (Inl ValueError, s0)
           else
             (case translate_valid_files s0 valid_files (source_lang s0) (target_lang s0) schedule of
                (Inl e, s1) \<Rightarrow> (Inl e, s1)
              | (Inr u, s1) \<Rightarrow>
                  if \<not> translation_in_progress s1 then (Inl InterruptedError, s1)
                  else
                    (case retry_loop s1 max_retries 0 of
                       (Inl e, s2) \<Rightarrow> (Inl e, s2)
                     | (Inr u', s2) \<Rightarrow> (Inr (length (untranslated_line_details s2)), s2))))"

section \<open>The initial state\<close>

definition get_supported_languages :: "(string \<times> string) list" where
  "get_supported_languages =
    [(''Afrikaans'', ''af''), (''Albanian'', ''sq''), (''Amharic'', ''am''),
     (''Arabic'', ''ar''), (''Armenian'', ''hy''), (''Azerbaijani'', ''az''),
     (''Basque'', ''eu''), (''Belarusian'', ''be''), (''Bengali'', ''bn''),
     (''Bosnian'', ''bs''), (''Bulgarian'', ''bg''), (''Catalan'', ''ca''),
     (''Cebuano'', ''ceb''), (''Chinese (Simplified)'', ''zh-CN''),
     (''Chinese (Traditional)'', ''zh-TW''), (''Corsican'', ''co''), (''Croatian'', ''hr''),
     (''Czech'', ''cs''), (''Danish'', ''da''), (''Dutch'', ''nl''), (''English'', ''en''),
     (''Esperanto'', ''eo''), (''Estonian'', ''et''), (''Finnish'', ''fi''),
     (''French'', ''fr''), (''Frisian'', ''fy''), (''Galician'', ''gl''),
     (''Georgian'', ''ka''), (''German'', ''de''), (''Greek'', ''el''), (''Gujarati'', ''gu''),
     (''Haitian Creole'', ''ht''), (''Hausa'', ''ha''), (''Hawaiian'', ''haw''),
     (''Hebrew'', ''iw''), (''Hindi'', ''hi''), (''Hmong'', ''hmn''), (''Hungarian'', ''hu''),
     (''Icelandic'', ''is''), (''Igbo'', ''ig''), (''Indonesian'', ''id''),
     (''Irish'', ''ga''), (''Italian'', ''it''), (''Japanese'', ''ja''),
     (''Javanese'', ''jw''), (''Kannada'', ''kn''), (''Kazakh'', ''kk''), (''Khmer'', ''km''),
     (''Kinyarwanda'', ''rw''), (''Korean'', ''ko''), (''Kurdish'', ''ku''),
     (''Kyrgyz'', ''ky''), (''Lao'', ''lo''), (''Latin'', ''la''), (''Latvian'', ''lv''),
     (''Lithuanian'', ''lt''), (''Luxembourgish'', ''lb''), (''Macedonian'', ''mk''),
     (''Malagasy'', ''mg''), (''Malay'', ''ms''), (''Malayalam'', ''ml''),
     (''Maltese'', ''mt''), (''Maori'', ''mi''), (''Marathi'', ''mr''),
     (''Mongolian'', ''mn''), (''Myanmar (Burmese)'', ''my''), (''Nepali'', ''ne''),
     (''Norwegian'', ''no''), (''Nyanja (Chichewa)'', ''ny''), (''Odia (Oriya)'', ''or''),
     (''Pashto'', ''ps''), (''Persian'', ''fa''), (''Polish'', ''pl''),
     (''Portuguese'', ''pt''), (''Punjabi'', ''pa''), (''Romanian'', ''ro''),
     (''Russian'', ''ru''), (''Samoan'', ''sm''), (''Scots Gaelic'', ''gd''),
     (''Serbian'', ''sr''), (''Sesotho'', ''st''), (''Shona'', ''sn''), (''Sindhi'', ''sd''),
     (''Sinhala (Sinhalese)'', ''si''), (''Slovak'', ''sk''), (''Slovenian'', ''sl''),
     (''Somali'', ''so''), (''Spanish'', ''es''), (''Sundanese'', ''su''),
     (''Swahili'', ''sw''), (''Swedish'', ''sv''), (''Tagalog (Filipino)'', ''tl''),
     (''Tajik'', ''tg''), (''Tamil'', ''ta''), (''Tatar'', ''tt''), (''Telugu'', ''te''),
     (''Thai'', ''th''), (''Turkish'', ''tr''), (''Turkmen'', ''tk''), (''Ukrainian'', ''uk''),
     (''Urdu'', ''ur''), (''Uyghur'', ''ug''), (''Uzbek'', ''uz''), (''Vietnamese'', ''vi''),
     (''Welsh'', ''cy''), (''Xhosa'', ''xh''), (''Yiddish'', ''yi''), (''Yoruba'', ''yo''),
     (''Zulu'', ''zu'')]"

text \<open>
  The state after \<open>__init__\<close>, \<open>setup_gui\<close> and \<open>start_translation\<close>, for a chosen target
  language, file system and translation service.
\<close>

definition start_translation ::
  "string \<Rightarrow> (string \<rightharpoonup> sub list) \<Rightarrow> (nat \<Rightarrow> string \<Rightarrow> string \<Rightarrow> string \<Rightarrow> string \<Rightarrow> response) \<Rightarrow> app" where
  "start_translation target files svc =
     \<lparr>languages = map_of get_supported_languages,
      naming_var = ''Original.language'',
      format_var = ''Standard SRT'',
      subtitle_color = ''#FFFF00'',
      source_lang = ''Auto'',
      target_lang = target,
      translation_cache = Map.empty,
      cache_hits = 0,
      request_count = 0,
      error_count = 0,
      untranslated_line_details = [],
      api_endpoints =
        [''https://translate.googleapis.com/translate_a/single'',
         ''https://clients5.google.com/translate_a/t'',
         ''https://translate.google.com/translate_a/single''],
      current_endpoint_index = 0,
      translation_in_progress = True,
      disk = files,
      unwritable = (\<lambda>p. False),
      service = svc,
      attempt_log = []\<rparr>"

section \<open>Notions used in the properties\<close>

text \<open>
  A reply of the service that carries back the text it was sent: HTTP 200 with a body whose
  text is, once trimmed, the trimmed input.
\<close>

definition identical_reply :: "response \<Rightarrow> string \<Rightarrow> bool" where
  "identical_reply r stripped =
     (case r of
        Http code (Some data) \<Rightarrow>
          code = 200 \<and> (case extract_translated data of Inl e \<Rightarrow> False | Inr t \<Rightarrow> strip t = stripped)
      | other \<Rightarrow> False)"

text \<open>
  \<open>engine_frame s s'\<close>: the two states agree outside the counters, the endpoint index and
  the cache, which are what a call of \<open>translate_text_direct\<close> may write.
\<close>

definition engine_frame :: "app \<Rightarrow> app \<Rightarrow> bool" where
  "engine_frame s s' \<longleftrightarrow>
     languages s' = languages s \<and> naming_var s' = naming_var s \<and> format_var s' = format_var s
     \<and> subtitle_color s' = subtitle_color s \<and> source_lang s' = source_lang s
     \<and> target_lang s' = target_lang s
     \<and> untranslated_line_details s' = untranslated_line_details s
     \<and> api_endpoints s' = api_endpoints s
     \<and> translation_in_progress s' = translation_in_progress s
     \<and> disk s' = disk s \<and> unwritable s' = unwritable s \<and> service s' = service s
     \<and> attempt_log s' = attempt_log s"

text \<open>Nothing is cached for the trimmed text \<open>q\<close> under the language codes of the run.\<close>

definition not_cached :: "app \<Rightarrow> string \<Rightarrow> string \<Rightarrow> string \<Rightarrow> bool" where
  "not_cached s target source q =
     (case language_codes s target source of
        Inl e \<Rightarrow> True
      | Inr (tc, sc) \<Rightarrow> translation_cache s (cache_key sc tc q) = None)"

text \<open>Whatever the request, the service replies to the trimmed text \<open>q\<close> with \<open>q\<close> itself.\<close>

definition always_identical :: "app \<Rightarrow> string \<Rightarrow> bool" where
  "always_identical s q = (\<forall>n e sc tc. identical_reply (service s n e sc tc q) q)"

text \<open>A failure record with the given original text is stored under the key.\<close>

definition recorded :: "app \<Rightarrow> string \<times> int \<Rightarrow> string \<Rightarrow> bool" where
  "recorded s key original =
     (case map_of (untranslated_line_details s) key of
        None \<Rightarrow> False
      | Some info \<Rightarrow> original_text info = original \<and> 0 < failure_count info)"

text \<open>Two collaborators for concrete runs: a service that sends every text back, and a
  file system that holds one cleaned subtitle file of one line.\<close>

definition echo_service :: "nat \<Rightarrow> string \<Rightarrow> string \<Rightarrow> string \<Rightarrow> string \<Rightarrow> response" where
  "echo_service n endpoint source_code target_code q = Http 200 (Some (JList [JList [JList [JStr q]]]))"

definition one_line_file :: "string \<Rightarrow> string \<rightharpoonup> sub list" where
  "one_line_file text =
     [''/d/movie_cleaned.srt'' \<mapsto> [\<lparr>sub_index = 1, sub_start = 0, sub_end = 1000, sub_text = text\<rparr>]]"



section \<open>Properties of the endpoint rotation\<close>

lemma get_next_endpoint_calls_from:
  assumes "current_endpoint_index s < length (api_endpoints s)"
  shows "\<exists>s'. get_next_endpoint_calls n s =
           Inr (map (\<lambda>k. api_endpoints s ! ((current_endpoint_index s + k) mod length (api_endpoints s))) [0..<n], s')
         \<and> api_endpoints s' = api_endpoints s
         \<and> current_endpoint_index s' = (current_endpoint_index s + n) mod length (api_endpoints s)"
  using assms
proof (induction n arbitrary: s)
  case 0
  then show ?case by simp
next
  case (Suc n)
  let ?N = "length (api_endpoints s)"
  let ?s1 = "s\<lparr>current_endpoint_index := (current_endpoint_index s + 1) mod ?N\<rparr>"
  have g: "get_next_endpoint s = Inr (api_endpoints s ! current_endpoint_index s, ?s1)"
    using Suc.prems by (simp add: get_next_endpoint_def)
  have pos: "0 < ?N" using Suc.prems by (cases "api_endpoints s") auto
  have lt: "current_endpoint_index ?s1 < length (api_endpoints ?s1)"
    using pos by simp
  from Suc.IH[OF lt] obtain s' where
    c: "get_next_endpoint_calls n ?s1 =
          Inr (map (\<lambda>k. api_endpoints s ! (((current_endpoint_index s + 1) mod ?N + k) mod ?N)) [0..<n], s')"
    and e: "api_endpoints s' = api_endpoints s"
    and i: "current_endpoint_index s' = ((current_endpoint_index s + 1) mod ?N + n) mod ?N"
    by auto
  have m: "\<And>k. ((current_endpoint_index s + 1) mod ?N + k) mod ?N = (current_endpoint_index s + Suc k) mod ?N"
    by (simp add: mod_add_left_eq)
  have l: "map (\<lambda>k. api_endpoints s ! ((current_endpoint_index s + k) mod ?N)) [0..<Suc n]
         = api_endpoints s ! current_endpoint_index s
           # map (\<lambda>k. api_endpoints s ! ((current_endpoint_index s + Suc k) mod ?N)) [0..<n]"
    using Suc.prems by (simp add: upt_conv_Cons map_Suc_upt[symmetric] del: upt_Suc)
  show ?case
    using g c e i m l by (simp del: upt_Suc)
qed

text \<open>
  Claim C8. \<open>get_next_endpoint\<close> is strictly round-robin: starting from index 0 over a
  non-empty endpoint list of length \<open>N\<close>, the call number \<open>k\<close> (counted from 0) returns the
  endpoint at position \<open>k mod N\<close>, no call fails, and after any number of calls the shared
  index is below \<open>N\<close>.
\<close>

theorem get_next_endpoint_round_robin:
  assumes "api_endpoints s \<noteq> []" and "current_endpoint_index s = 0"
  shows "\<exists>s'. get_next_endpoint_calls n s =
           Inr (map (\<lambda>k. api_endpoints s ! (k mod length (api_endpoints s))) [0..<n], s')
         \<and> current_endpoint_index s' = n mod length (api_endpoints s)
         \<and> current_endpoint_index s' < length (api_endpoints s)"
  using get_next_endpoint_calls_from[of s n] assms by auto


theorem get_next_endpoint_round_robin_witness:
  "api_endpoints (start_translation ''Spanish'' Map.empty (\<lambda>n e sl tl q. Timeout)) \<noteq> []
   \<and> current_endpoint_index (start_translation ''Spanish'' Map.empty (\<lambda>n e sl tl q. Timeout)) = 0
   \<and> (\<exists>s'. get_next_endpoint_calls 4 (start_translation ''Spanish'' Map.empty (\<lambda>n e sl tl q. Timeout)) =
          Inr ([''https://translate.googleapis.com/translate_a/single'',
                ''https://clients5.google.com/translate_a/t'',
                ''https://translate.google.com/translate_a/single'',
                ''https://translate.googleapis.com/translate_a/single''], s')
        \<and> current_endpoint_index s' = 1
        \<and> current_endpoint_index s' < 3)"
proof -
  let ?s = "start_translation ''Spanish'' Map.empty (\<lambda>n e sl tl q. Timeout)"
  have a: "api_endpoints ?s \<noteq> []" by (simp add: start_translation_def)
  have b: "current_endpoint_index ?s = 0" by (simp add: start_translation_def)
  have m: "map (\<lambda>k. api_endpoints ?s ! (k mod length (api_endpoints ?s))) [0..<4]
      = [''https://translate.googleapis.com/translate_a/single'',
                ''https://clients5.google.com/translate_a/t'',
                ''https://translate.google.com/translate_a/single'',
                ''https://translate.googleapis.com/translate_a/single'']"
    by (simp add: start_translation_def upt_rec)
  have l: "length (api_endpoints ?s) = 3" by (simp add: start_translation_def)
  from get_next_endpoint_round_robin[OF a b, of 4] show ?thesis
    unfolding m using a b by (simp add: l)
qed

section \<open>Properties of translating one text\<close>

lemma engine_frame_refl [simp]: "engine_frame s s"
  by (simp add: engine_frame_def)

lemma engine_frame_trans: "engine_frame s s' \<Longrightarrow> engine_frame s' s'' \<Longrightarrow> engine_frame s s''"
  by (simp add: engine_frame_def)

lemma engine_frame_upd [simp]:
  "engine_frame s (s'\<lparr>request_count := r\<rparr>) = engine_frame s s'"
  "engine_frame s (s'\<lparr>error_count := e\<rparr>) = engine_frame s s'"
  "engine_frame s (s'\<lparr>current_endpoint_index := i\<rparr>) = engine_frame s s'"
  "engine_frame s (s'\<lparr>cache_hits := h\<rparr>) = engine_frame s s'"
  "engine_frame s (s'\<lparr>translation_cache := c\<rparr>) = engine_frame s s'"
  by (simp_all add: engine_frame_def)

lemma get_next_endpoint_frame:
  "get_next_endpoint s = Inr (e, s') \<Longrightarrow>
     engine_frame s s' \<and> translation_cache s' = translation_cache s \<and> cache_hits s' = cache_hits s"
  by (auto simp: get_next_endpoint_def split: if_splits)

lemma attempt_loop_frame:
  "engine_frame s (snd (attempt_loop s sc tc stripped m a))
   \<and> translation_cache (snd (attempt_loop s sc tc stripped m a)) = translation_cache s
   \<and> cache_hits (snd (attempt_loop s sc tc stripped m a)) = cache_hits s"
proof (induction s sc tc stripped m a rule: attempt_loop.induct)
  case (1 s sc tc stripped m a)
  show ?case
  proof (cases "a \<le> m \<and> translation_in_progress s")
    case False
    then show ?thesis
      by (subst (1 2 3) attempt_loop.simps) auto
  next
    case True
    let ?s1 = "s\<lparr>request_count := request_count s + 1\<rparr>"
    show ?thesis
    proof (cases "get_next_endpoint ?s1")
      case (Inl e)
      then show ?thesis using True
        by (subst (1 2 3) attempt_loop.simps) (auto simp: Let_def)
    next
      case (Inr p)
      then obtain endpoint s2 where p: "p = (endpoint, s2)" by (cases p)
      have f2: "engine_frame s s2" "translation_cache s2 = translation_cache s" "cache_hits s2 = cache_hits s"
        using get_next_endpoint_frame[of ?s1 endpoint s2] Inr p
        by (auto simp: engine_frame_def)
      let ?r = "attempt_loop s2 sc tc stripped m (a + 1)"
      have step: "engine_frame s (snd ?r) \<and> translation_cache (snd ?r) = translation_cache s
                  \<and> cache_hits (snd ?r) = cache_hits s" 
         if "engine_frame s2 (snd ?r) \<and> translation_cache (snd ?r) = translation_cache s2
                  \<and> cache_hits (snd ?r) = cache_hits s2"
        using that f2 by (auto simp: engine_frame_def)
      have IH: "engine_frame s2 (snd ?r) \<and> translation_cache (snd ?r) = translation_cache s2
                  \<and> cache_hits (snd ?r) = cache_hits s2"
        if "service s2 (request_count s2) endpoint sc tc stripped = Timeout
          \<or> (\<exists>code body. service s2 (request_count s2) endpoint sc tc stripped = Http code body
               \<and> (code = 200 \<longrightarrow> (\<exists>data translated. body = Some data
                     \<and> extract_translated data = Inr translated
                     \<and> \<not> (translated \<noteq> [] \<and> strip translated \<noteq> [] \<and> strip translated \<noteq> stripped)))
               \<and> (code \<noteq> 200 \<longrightarrow> retryable_status code))"
        using that "1.IH"(1)[OF _ _ refl, of "(endpoint, s2)" endpoint s2]
          "1.IH"(2)[OF _ _ refl, of "(endpoint, s2)" endpoint s2]
          "1.IH"(3)[OF _ _ refl, of "(endpoint, s2)" endpoint s2] True Inr p
        by (elim disjE exE conjE) (simp, (cases "code = 200"; simp; blast))
      show ?thesis
      proof (cases "service s2 (request_count s2) endpoint sc tc stripped = Timeout
          \<or> (\<exists>code body. service s2 (request_count s2) endpoint sc tc stripped = Http code body
               \<and> (code = 200 \<longrightarrow> (\<exists>data translated. body = Some data
                     \<and> extract_translated data = Inr translated
                     \<and> \<not> (translated \<noteq> [] \<and> strip translated \<noteq> [] \<and> strip translated \<noteq> stripped)))
               \<and> (code \<noteq> 200 \<longrightarrow> retryable_status code))")
        case rec: True
        have eq: "attempt_loop s sc tc stripped m a = ?r"
          using rec True Inr p
          by (subst attempt_loop.simps) (auto simp: Let_def)
        show ?thesis unfolding eq using step[OF IH[OF rec]] .
      next
        case norec: False
        have eq: "snd (attempt_loop s sc tc stripped m a) = s2
                  \<or> snd (attempt_loop s sc tc stripped m a) = s2\<lparr>error_count := error_count s2 + 1\<rparr>"
          using norec True Inr p
          by (subst (1 2) attempt_loop.simps)
             (auto simp: Let_def split: response.splits option.splits sum.splits)
        then show ?thesis using f2 by auto
      qed
    qed
  qed
qed

lemma identical_replyD:
  "identical_reply r stripped \<Longrightarrow>
     \<exists>data t. r = Http 200 (Some data) \<and> extract_translated data = Inr t \<and> strip t = stripped"
  by (auto simp: identical_reply_def split: response.splits option.splits sum.splits)

lemma attempt_loop_identical:
  assumes "\<forall>n e. identical_reply (service s n e sc tc stripped) stripped"
  shows "fst (attempt_loop s sc tc stripped m a) = None"
  using assms
proof (induction s sc tc stripped m a rule: attempt_loop.induct)
  case (1 s sc tc stripped m a)
  show ?case
  proof (cases "a \<le> m \<and> translation_in_progress s")
    case False
    then show ?thesis by (subst attempt_loop.simps) auto
  next
    case True
    let ?s1 = "s\<lparr>request_count := request_count s + 1\<rparr>"
    show ?thesis
    proof (cases "get_next_endpoint ?s1")
      case (Inl e)
      then show ?thesis using True by (subst attempt_loop.simps) (auto simp: Let_def)
    next
      case (Inr p)
      then obtain endpoint s2 where p: "p = (endpoint, s2)" by (cases p)
      have sv: "service s2 = service s"
        using get_next_endpoint_frame[of ?s1 endpoint s2] Inr p by (simp add: engine_frame_def)
      from "1.prems" sv obtain data t where
        r: "service s2 (request_count s2) endpoint sc tc stripped = Http 200 (Some data)"
        and x: "extract_translated data = Inr t" and t: "strip t = stripped"
        using identical_replyD by metis
      have "\<forall>n e. identical_reply (service s2 n e sc tc stripped) stripped"
        using "1.prems" sv by simp
      from "1.IH"(2)[OF _ _ refl Inr[unfolded p] refl r refl refl x _ this] True t
      have "fst (attempt_loop s2 sc tc stripped m (a + 1)) = None" by simp
      then show ?thesis using True Inr p r x t
        by (subst attempt_loop.simps) (simp add: Let_def)
    qed
  qed
qed

lemma translate_text_direct_frame:
  "engine_frame s (snd (translate_text_direct s text target source m))"
proof -
  have "engine_frame s (snd (attempt_loop s sc tc stripped m 0))" for sc tc stripped
    using attempt_loop_frame by blast
  then show ?thesis
    by (auto simp: translate_text_direct_def Let_def split: sum.splits option.splits prod.splits)
       (metis snd_conv)+
qed

lemma translate_text_direct_identical:
  assumes "\<forall>n e sc tc. identical_reply (service s n e sc tc (strip text)) (strip text)"
    and "\<forall>sc tc. translation_cache s (cache_key sc tc (strip text)) = None"
  shows "fst (translate_text_direct s text target source m) = text
       \<and> translation_cache (snd (translate_text_direct s text target source m)) = translation_cache s"
proof -
  have n: "fst (attempt_loop s sc tc (strip text) m 0) = None" for sc tc
    using attempt_loop_identical assms(1) by blast
  have c: "translation_cache (snd (attempt_loop s sc tc (strip text) m 0)) = translation_cache s" for sc tc
    using attempt_loop_frame by blast
  show ?thesis
    using assms(2) n c
    by (auto simp: translate_text_direct_def Let_def split: sum.splits option.splits prod.splits)
       (metis fst_conv snd_conv option.distinct(1))+
qed

text \<open>
  Claim C1. When the text is not blank, both language names resolve, and the cache holds a
  value under the key made of the source code, the target code and the trimmed text, then
  \<open>translate_text_direct\<close> returns that value and changes nothing but \<open>cache_hits\<close>,
  which grows by one: the request counter stays as it was and the endpoint index does not
  move, so no request is issued. (The key of a text is only built after the blank check and
  the code lookup, which is why these two are premises.)
\<close>

theorem translate_text_direct_cache_hit:
  assumes "strip text \<noteq> []"
    and "language_codes s target source = Inr (target_code, source_code)"
    and "translation_cache s (cache_key source_code target_code (strip text)) = Some cached"
  shows "translate_text_direct s text target source max_retries
           = (cached, s\<lparr>cache_hits := cache_hits s + 1\<rparr>)
         \<and> request_count (snd (translate_text_direct s text target source max_retries)) = request_count s
         \<and> current_endpoint_index (snd (translate_text_direct s text target source max_retries))
             = current_endpoint_index s"
  using assms by (simp add: translate_text_direct_def Let_def)

theorem translate_text_direct_cache_hit_witness:
  "strip '' Hello '' \<noteq> []
   \<and> language_codes
        ((start_translation ''Spanish'' Map.empty (\<lambda>n e sl tl q. Timeout))
           \<lparr>translation_cache := [''auto|es|Hello'' \<mapsto> ''Hola'']\<rparr>) ''Spanish'' ''Auto''
       = Inr (''es'', ''auto'')
   \<and> translate_text_direct
        ((start_translation ''Spanish'' Map.empty (\<lambda>n e sl tl q. Timeout))
           \<lparr>translation_cache := [''auto|es|Hello'' \<mapsto> ''Hola'']\<rparr>) '' Hello '' ''Spanish'' ''Auto'' 3
       = (''Hola'',
          (start_translation ''Spanish'' Map.empty (\<lambda>n e sl tl q. Timeout))
            \<lparr>translation_cache := [''auto|es|Hello'' \<mapsto> ''Hola''], cache_hits := 1\<rparr>)"
proof -
  let ?s = "(start_translation ''Spanish'' Map.empty (\<lambda>n e sl tl q. Timeout))
           \<lparr>translation_cache := [''auto|es|Hello'' \<mapsto> ''Hola'']\<rparr>"
  have a: "strip '' Hello '' \<noteq> []" by (simp add: strip_def is_space_def)
  have b: "language_codes ?s ''Spanish'' ''Auto'' = Inr (''es'', ''auto'')"
    by (simp add: language_codes_def start_translation_def get_supported_languages_def)
  have c: "translation_cache ?s (cache_key ''auto'' ''es'' (strip '' Hello '')) = Some ''Hola''"
    by (simp add: cache_key_def strip_def is_space_def)
  have h: "cache_hits ?s = 0" by (simp add: start_translation_def)
  from translate_text_direct_cache_hit[OF a b c, of 3] a b h show ?thesis by simp
qed

section \<open>Lines whose translation comes back unchanged\<close>

lemma cache_key_inject [simp]: "cache_key sc tc q = cache_key sc tc q' \<longleftrightarrow> q = q'"
  by (simp add: cache_key_def)






lemma translate_subtitle_frame: "engine_frame s (snd (translate_subtitle s sb source target))"
  using translate_text_direct_frame[of s "sub_text sb" target source 3]
  by (auto simp: translate_subtitle_def Let_def split: prod.splits)







lemma recorded_log [simp]:
  "recorded (s\<lparr>attempt_log := l\<rparr>) key original = recorded s key original"
  by (simp add: recorded_def)

lemma language_codes_cong:
  "languages s' = languages s \<Longrightarrow> language_codes s' = language_codes s"
  by (rule ext)+ (auto simp: language_codes_def split: option.splits)

lemma not_cached_cong:
  "languages s' = languages s \<Longrightarrow> translation_cache s' = translation_cache s \<Longrightarrow>
     not_cached s' target source q = not_cached s target source q"
  using language_codes_cong[of s' s] by (simp add: not_cached_def split: sum.splits prod.splits)

lemma not_cached_bookkeeping [simp]:
  "not_cached (record_failure s key original) target source q = not_cached s target source q"
  "not_cached (clear_failure s key) target source q = not_cached s target source q"
  "not_cached (s\<lparr>attempt_log := l\<rparr>) target source q = not_cached s target source q"
  by (rule not_cached_cong; simp add: record_failure_def clear_failure_def Let_def)+

lemma always_identical_bookkeeping [simp]:
  "always_identical (record_failure s key original) q = always_identical s q"
  "always_identical (clear_failure s key) q = always_identical s q"
  "always_identical (s\<lparr>attempt_log := l\<rparr>) q = always_identical s q"
  by (simp_all add: always_identical_def record_failure_def clear_failure_def Let_def)

lemma in_progress_bookkeeping [simp]:
  "translation_in_progress (record_failure s key original) = translation_in_progress s"
  "translation_in_progress (clear_failure s key) = translation_in_progress s"
  by (simp_all add: record_failure_def clear_failure_def Let_def)





section \<open>Blank lines and output names\<close>

text \<open>
  Claim C5, evaluated at a file whose only line is blank. \<open>translate_text_direct\<close> returns
  the text unchanged without a request, but \<open>translate_subtitle\<close> reports
  \<open>success = False\<close>: the run records a failure for the line, retries it in two passes
  and ends with the line counted as finally untranslated.
\<close>

theorem blank_line_reported_failed:
  "translate_text_direct (start_translation ''Spanish'' (one_line_file ''  '') echo_service)
     ''  '' ''Spanish'' ''Auto'' 3
     = (''  '', start_translation ''Spanish'' (one_line_file ''  '') echo_service)
   \<and> fst (translate_subtitle (start_translation ''Spanish'' (one_line_file ''  '') echo_service)
            \<lparr>sub_index = 1, sub_start = 0, sub_end = 1000, sub_text = ''  ''\<rparr> ''Auto'' ''Spanish'')
       = (1, ''  '', False, ''  '')
   \<and> fst (translate_files_thread (start_translation ''Spanish'' (one_line_file ''  '') echo_service)
            [''/d/movie_cleaned.srt''] (\<lambda>fp. [Complete 0]) 3) = Inr 1
   \<and> untranslated_line_details
         (snd (translate_files_thread (start_translation ''Spanish'' (one_line_file ''  '') echo_service)
                 [''/d/movie_cleaned.srt''] (\<lambda>fp. [Complete 0]) 3))
       = [((''/d/movie.es.srt'', 1), \<lparr>original_text = ''  '', failure_count = 3\<rparr>)]
   \<and> attempt_log
         (snd (translate_files_thread (start_translation ''Spanish'' (one_line_file ''  '') echo_service)
                 [''/d/movie_cleaned.srt''] (\<lambda>fp. [Complete 0]) 3))
       = [((''/d/movie.es.srt'', 1), False), ((''/d/movie.es.srt'', 1), False),
          ((''/d/movie.es.srt'', 1), False)]"
proof -
  have a: "translate_text_direct (start_translation ''Spanish'' (one_line_file ''  '') echo_service)
     ''  '' ''Spanish'' ''Auto'' 3
     = (''  '', start_translation ''Spanish'' (one_line_file ''  '') echo_service)"
    by (simp add: translate_text_direct_def strip_def is_space_def)
  have b: "fst (translate_subtitle (start_translation ''Spanish'' (one_line_file ''  '') echo_service)
            \<lparr>sub_index = 1, sub_start = 0, sub_end = 1000, sub_text = ''  ''\<rparr> ''Auto'' ''Spanish'')
       = (1, ''  '', False, ''  '')"
    by code_simp
  have c: "fst (translate_files_thread (start_translation ''Spanish'' (one_line_file ''  '') echo_service)
            [''/d/movie_cleaned.srt''] (\<lambda>fp. [Complete 0]) 3) = Inr 1"
    by code_simp
  have d: "untranslated_line_details
         (snd (translate_files_thread (start_translation ''Spanish'' (one_line_file ''  '') echo_service)
                 [''/d/movie_cleaned.srt''] (\<lambda>fp. [Complete 0]) 3))
       = [((''/d/movie.es.srt'', 1), \<lparr>original_text = ''  '', failure_count = 3\<rparr>)]"
    by code_simp
  have e: "attempt_log
         (snd (translate_files_thread (start_translation ''Spanish'' (one_line_file ''  '') echo_service)
                 [''/d/movie_cleaned.srt''] (\<lambda>fp. [Complete 0]) 3))
       = [((''/d/movie.es.srt'', 1), False), ((''/d/movie.es.srt'', 1), False),
          ((''/d/movie.es.srt'', 1), False)]"
    by code_simp
  show ?thesis using a b c d e by blast
qed




section \<open>Collecting the results of the worker pool\<close>

lemma translate_subtitle_cancelled:
  "\<not> translation_in_progress s \<Longrightarrow>
     translate_subtitle s sb source target = ((sub_index sb, sub_text sb, False, sub_text sb), s)"
  by (simp add: translate_subtitle_def Let_def)

lemma collect_results_disk:
  "disk (snd (collect_results s out source target tasks evs results processed untranslated)) = disk s
   \<and> unwritable (snd (collect_results s out source target tasks evs results processed untranslated))
       = unwritable s"
proof (induction evs arbitrary: s results processed untranslated)
  case Nil
  then show ?case by simp
next
  case (Cons ev evs)
  show ?case
  proof (cases ev)
    case Cancel
    then show ?thesis using Cons.IH[of "s\<lparr>translation_in_progress := False\<rparr>"] by simp
  next
    case (Complete j)
    show ?thesis
    proof (cases "length tasks \<le> j")
      case True
      then show ?thesis using Complete Cons.IH[of s] by simp
    next
      case False
      obtain idx tx success original s1 where
        r: "translate_subtitle s (tasks ! j) source target = ((idx, tx, success, original), s1)"
        by (cases "translate_subtitle s (tasks ! j) source target") auto
      have fr: "engine_frame s s1"
        using translate_subtitle_frame[of s "tasks ! j" source target] by (simp add: r)
      then have d1: "disk s1 = disk s" "unwritable s1 = unwritable s"
        by (simp_all add: engine_frame_def)
      define s3 where "s3 = (if \<not> success
          then record_failure (s1\<lparr>attempt_log := attempt_log s1 @ [((out, idx), success)]\<rparr>) (out, idx) original
          else clear_failure (s1\<lparr>attempt_log := attempt_log s1 @ [((out, idx), success)]\<rparr>) (out, idx))"
      have d3: "disk s3 = disk s" "unwritable s3 = unwritable s"
        using d1 by (simp_all add: s3_def record_failure_def clear_failure_def Let_def)
      show ?thesis
      proof (cases "translation_in_progress s1")
        case True
        have "collect_results s out source target tasks (ev # evs) results processed untranslated
          = collect_results s3 out source target tasks evs (AList.update idx tx results) (processed + 1)
              (if success then untranslated else untranslated + 1)"
          using False Complete r True by (simp add: Let_def s3_def)
        then show ?thesis using Cons.IH[of s3] d3 by simp
      next
        case f: False
        then show ?thesis using False Complete r d1 by simp
      qed
    qed
  qed
qed

lemma collect_results_cancelled:
  assumes "\<not> translation_in_progress s" and "j < length tasks" and "Complete j \<in> set evs"
  shows "fst (collect_results s out source target tasks evs results processed untranslated)
           = Inl InterruptedError"
  using assms
proof (induction evs arbitrary: s)
  case Nil
  then show ?case by simp
next
  case (Cons ev evs)
  show ?case
  proof (cases ev)
    case Cancel
    then show ?thesis using Cons.IH[of "s\<lparr>translation_in_progress := False\<rparr>"] Cons.prems by simp
  next
    case (Complete k)
    show ?thesis
    proof (cases "length tasks \<le> k")
      case True
      then have "Complete j \<in> set evs" using Cons.prems Complete by auto
      then show ?thesis using True Complete Cons.IH[of s] Cons.prems by simp
    next
      case False
      then show ?thesis
        using Complete translate_subtitle_cancelled[OF Cons.prems(1), of "tasks ! k" source target]
          Cons.prems(1) by simp
    qed
  qed
qed

lemma collect_results_error:
  "fst (collect_results s out source target tasks evs results processed untranslated) = Inl e
     \<Longrightarrow> e = InterruptedError"
proof (induction evs arbitrary: s results processed untranslated)
  case Nil
  then show ?case by simp
next
  case (Cons ev evs)
  show ?case
  proof (cases ev)
    case Cancel
    then show ?thesis using Cons by simp
  next
    case (Complete j)
    show ?thesis
    proof (cases "length tasks \<le> j")
      case True
      then show ?thesis using Complete Cons by simp
    next
      case False
      obtain idx tx success original s1 where
        r: "translate_subtitle s (tasks ! j) source target = ((idx, tx, success, original), s1)"
        by (cases "translate_subtitle s (tasks ! j) source target") auto
      show ?thesis
        using False Complete r Cons.prems Cons.IH
        by (cases "translation_in_progress s1"; cases success) (auto simp: Let_def)
    qed
  qed
qed

lemma collect_results_cancel_in_schedule:
  assumes "j < length tasks" and "Complete j \<in> set rest"
  shows "fst (collect_results s out source target tasks (pre @ Cancel # rest) results processed untranslated)
           = Inl InterruptedError"
proof (induction pre arbitrary: s results processed untranslated)
  case Nil
  show ?case
    using collect_results_cancelled[OF _ assms, of "s\<lparr>translation_in_progress := False\<rparr>"] by simp
next
  case (Cons ev pre)
  show ?case
  proof (cases ev)
    case Cancel
    then show ?thesis using Cons.IH by simp
  next
    case (Complete k)
    show ?thesis
    proof (cases "length tasks \<le> k")
      case True
      then show ?thesis using Complete Cons.IH by simp
    next
      case False
      obtain idx tx success original s1 where
        r: "translate_subtitle s (tasks ! k) source target = ((idx, tx, success, original), s1)"
        by (cases "translate_subtitle s (tasks ! k) source target") auto
      show ?thesis
        using False Complete r Cons.IH
        by (cases "translation_in_progress s1"; cases success) (auto simp: Let_def)
    qed
  qed
qed

text \<open>
  Claim C7. When the user cancels while futures are still being collected (the schedule
  has a \<open>Cancel\<close> that is followed by the completion of some task of the file),
  \<open>process_file_parallel\<close> raises \<open>InterruptedError\<close>, the one error that the caller
  passes on as a cancellation instead of logging it, and it returns before the save: the file
  system is exactly as it was, so the output file is still absent or still has its old
  contents.
\<close>

theorem cancellation_leaves_output_untouched:
  assumes "disk s file_path = Some subs" and "schedule = pre @ Cancel # rest"
    and "j < length subs" and "Complete j \<in> set rest"
  shows "fst (process_file_parallel s file_path output_path source target schedule)
           = Inl InterruptedError
         \<and> disk (snd (process_file_parallel s file_path output_path source target schedule)) = disk s"
proof -
  have ne: "subs \<noteq> []" using assms(3) by auto
  let ?c = "collect_results s output_path source target subs schedule [] 0 0"
  have e: "fst ?c = Inl InterruptedError"
    unfolding assms(2) by (rule collect_results_cancel_in_schedule[OF assms(3,4)])
  have d: "disk (snd ?c) = disk s" using collect_results_disk by blast
  obtain s1 where c: "?c = (Inl InterruptedError, s1)" using e by (cases ?c) auto
  show ?thesis
    using assms(1) ne c d by (simp add: process_file_parallel_def)
qed

theorem cancellation_leaves_output_untouched_witness:
  "disk (start_translation ''Spanish'' (one_line_file ''Hello'') echo_service) ''/d/movie_cleaned.srt''
     = Some [\<lparr>sub_index = 1, sub_start = 0, sub_end = 1000, sub_text = ''Hello''\<rparr>]
   \<and> [Cancel, Complete 0] = [] @ Cancel # [Complete 0]
   \<and> (0::nat) < length [\<lparr>sub_index = 1, sub_start = 0, sub_end = 1000, sub_text = ''Hello''\<rparr>]
   \<and> Complete 0 \<in> set [Complete 0]
   \<and> fst (process_file_parallel (start_translation ''Spanish'' (one_line_file ''Hello'') echo_service)
            ''/d/movie_cleaned.srt'' ''/d/movie.es.srt'' ''Auto'' ''Spanish'' [Cancel, Complete 0])
       = Inl InterruptedError
   \<and> disk (snd (process_file_parallel (start_translation ''Spanish'' (one_line_file ''Hello'') echo_service)
            ''/d/movie_cleaned.srt'' ''/d/movie.es.srt'' ''Auto'' ''Spanish'' [Cancel, Complete 0]))
         ''/d/movie.es.srt'' = None"
proof -
  let ?s = "start_translation ''Spanish'' (one_line_file ''Hello'') echo_service"
  let ?subs = "[\<lparr>sub_index = 1, sub_start = 0, sub_end = 1000, sub_text = ''Hello''\<rparr>]"
  have d: "disk ?s ''/d/movie_cleaned.srt'' = Some ?subs"
    by (simp add: start_translation_def one_line_file_def)
  have sch: "[Cancel, Complete 0] = [] @ Cancel # [Complete 0]" by simp
  have j: "(0::nat) < length ?subs" by simp
  have c: "Complete 0 \<in> set [Complete 0]" by simp
  have n: "disk ?s ''/d/movie.es.srt'' = None"
    by (simp add: start_translation_def one_line_file_def)
  from cancellation_leaves_output_untouched[OF d sch j c, of "''/d/movie.es.srt''" "''Auto''" "''Spanish''"]
    d n show ?thesis by simp
qed






end
